theory Spec2Isabelle
  imports Complex_Main "HOL-Library.AList"
begin

section \<open>JavaScript values\<close>

text \<open>
  The factory methods of \<^verbatim>\<open>addon/server.js\<close> (\<^verbatim>\<open>build\<close>, \<^verbatim>\<open>buildList\<close>,
  \<^verbatim>\<open>create\<close>, \<^verbatim>\<open>createList\<close> and their private helpers) work on untyped
  JavaScript values. A plain object is an association list of its own properties, in
  insertion order (the order \<^verbatim>\<open>Object.keys\<close> enumerates; property names that are
  canonical array indices, which JavaScript enumerates first, are outside the model).
  Its prototype is \<^verbatim>\<open>Object.prototype\<close>, as that of every object literal is
  (objects made with a \<^verbatim>\<open>null\<close> prototype are outside the model).
  \<open>JHost\<close> stands for every object that is not plain and not an array: a function, a
  model instance, a database collection, a prototype. Numbers are rationals;
  \<^verbatim>\<open>NaN\<close> and the infinities are outside the model.
\<close>

datatype jsval =
    JUndefined
  | JNull
  | JBool bool
  | JNum rat
  | JStr string
  | JArr "jsval list"
  | JObj "(string \<times> jsval) list"
  | JHost string "(string \<times> jsval) list"

type_synonym jsobj = "(string \<times> jsval) list"

text \<open>
  Every \<^verbatim>\<open>assert\<close> and \<^verbatim>\<open>throw\<close> of the source is one constructor, carrying
  the values its message interpolates. \<open>TypeError\<close> is what the JavaScript runtime
  throws on a property access on \<^verbatim>\<open>undefined\<close>/\<^verbatim>\<open>null\<close>, on spreading a value
  that is not iterable and on calling a missing method. \<open>StackExhausted\<close> is the
  \<^verbatim>\<open>RangeError\<close> of a call stack that is used up: the recursion between
  \<^verbatim>\<open>create\<close> and \<^verbatim>\<open>_mapAssociationsFromAttributes\<close> is bounded by the depth
  given to the model.
\<close>

datatype error =
    NoModelOrFactory string string
  | NoCollection string
  | NotAnInteger string
  | TraitNotRegistered string string
  | NotBelongsTo string string
  | SelfReferential string string
  | TypeError string
  | StackExhausted

fun truthy :: "jsval \<Rightarrow> bool" where
  "truthy JUndefined = False"
| "truthy JNull = False"
| "truthy (JBool b) = b"
| "truthy (JNum r) = (r \<noteq> 0)"
| "truthy (JStr s) = (s \<noteq> [])"
| "truthy (JArr xs) = True"
| "truthy (JObj ps) = True"
| "truthy (JHost c ps) = True"

fun typeof :: "jsval \<Rightarrow> string" where
  "typeof JUndefined = ''undefined''"
| "typeof JNull = ''object''"
| "typeof (JBool b) = ''boolean''"
| "typeof (JNum r) = ''number''"
| "typeof (JStr s) = ''string''"
| "typeof (JArr xs) = ''object''"
| "typeof (JObj ps) = ''object''"
| "typeof (JHost c ps) = (if c = ''Function'' then ''function'' else ''object'')"

text \<open>lodash's \<^verbatim>\<open>_isPlainObject\<close>, \<^verbatim>\<open>_isInteger\<close> and \<^verbatim>\<open>Array.isArray\<close>.\<close>

fun isPlainObject :: "jsval \<Rightarrow> bool" where
  "isPlainObject (JObj ps) = True"
| "isPlainObject v = False"

fun isInteger :: "jsval \<Rightarrow> bool" where
  "isInteger (JNum r) = (r = of_int \<lfloor>r\<rfloor>)"
| "isInteger v = False"

fun isArray :: "jsval \<Rightarrow> bool" where
  "isArray (JArr xs) = True"
| "isArray v = False"

text \<open>\<^verbatim>\<open>arg && typeof arg === 'string'\<close>: the non-empty strings among the arguments.\<close>

fun traitName :: "jsval \<Rightarrow> string option" where
  "traitName (JStr s) = (if s \<noteq> [] then Some s else None)"
| "traitName v = None"

definition traitNames :: "jsval list \<Rightarrow> string list" where
  "traitNames args = List.map_filter traitName args"

text \<open>lodash's \<^verbatim>\<open>_find\<close>: the first element that satisfies the predicate, else \<^verbatim>\<open>undefined\<close>.\<close>

definition find_js :: "(jsval \<Rightarrow> bool) \<Rightarrow> jsval list \<Rightarrow> jsval" where
  "find_js p xs = (case List.find p xs of None \<Rightarrow> JUndefined | Some v \<Rightarrow> v)"

text \<open>
  A property that an object does not own is read from its prototype chain, which for
  every value ends in \<^verbatim>\<open>Object.prototype\<close>. These are the names of its members:
  under \<^verbatim>\<open>__proto__\<close> an object finds its prototype, under every other name a
  function, which has the name of the member (\<^verbatim>\<open>Object\<close>, for the constructor).
\<close>

definition objectPrototypeNames :: "string list" where
  "objectPrototypeNames =
     [''constructor'', ''__defineGetter__'', ''__defineSetter__'', ''hasOwnProperty'',
      ''__lookupGetter__'', ''__lookupSetter__'', ''isPrototypeOf'', ''propertyIsEnumerable'',
      ''toString'', ''valueOf'', ''__proto__'', ''toLocaleString'']"

definition inheritedMember :: "string \<Rightarrow> jsval" where
  "inheritedMember k =
     (if k = ''__proto__'' then JHost ''Object'' []
      else if k \<in> set objectPrototypeNames
        then JHost ''Function'' [(''name'', JStr (if k = ''constructor'' then ''Object'' else k))]
      else JUndefined)"

text \<open>\<^verbatim>\<open>obj[key]\<close> on an object with the given own properties: the own property, else
  the inherited member of that name, else \<^verbatim>\<open>undefined\<close>.\<close>

definition lookup :: "jsobj \<Rightarrow> string \<Rightarrow> jsval" where
  "lookup ps k = (case map_of ps k of None \<Rightarrow> inheritedMember k | Some v \<Rightarrow> v)"

text \<open>
  \<^verbatim>\<open>v[key]\<close> and \<^verbatim>\<open>v.key\<close> on any value: a \<^verbatim>\<open>TypeError\<close> on
  \<^verbatim>\<open>undefined\<close> and \<^verbatim>\<open>null\<close>. A primitive or an array has the members of
  \<^verbatim>\<open>Object.prototype\<close>; its index properties, its \<^verbatim>\<open>length\<close> and the methods of
  its own prototype are left out, as are the methods of the class of a \<open>JHost\<close>: from
  such values the source reads the names \<^verbatim>\<open>extension\<close>, \<^verbatim>\<open>traitsAndOverrides\<close>
  and \<^verbatim>\<open>id\<close> only, which none of the built-in prototypes defines.
\<close>

fun getProp :: "jsval \<Rightarrow> string \<Rightarrow> error + jsval" where
  "getProp JUndefined k = Inl (TypeError k)"
| "getProp JNull k = Inl (TypeError k)"
| "getProp (JObj ps) k = Inr (lookup ps k)"
| "getProp (JHost c ps) k = Inr (lookup ps k)"
| "getProp v k = Inr (inheritedMember k)"

text \<open>The spread \<^verbatim>\<open>...v\<close> of a call's arguments: arrays and strings are iterable.\<close>

fun spread :: "jsval \<Rightarrow> error + jsval list" where
  "spread (JArr xs) = Inr xs"
| "spread (JStr s) = Inr (map (\<lambda>c. JStr [c]) s)"
| "spread v = Inl (TypeError ''spread'')"

text \<open>
  lodash's \<^verbatim>\<open>_assign(accum, source)\<close>: every own property of the source is written
  to the accumulator, in the source's order; a property that exists keeps its place, a
  new one goes last. A source that is \<^verbatim>\<open>undefined\<close>, \<^verbatim>\<open>null\<close>, a number or a
  boolean has no own property (the index properties of strings and arrays are outside
  the model).
\<close>

fun ownProperties :: "jsval \<Rightarrow> jsobj" where
  "ownProperties (JObj ps) = ps"
| "ownProperties (JHost c ps) = ps"
| "ownProperties v = []"

definition assign :: "jsobj \<Rightarrow> jsval \<Rightarrow> jsobj" where
  "assign accum source = AList.updates (map fst (ownProperties source)) (map snd (ownProperties source)) accum"

section \<open>The server's state and its collaborators\<close>

text \<open>
  \<open>state\<close> is what the factory methods mutate: the database \<^verbatim>\<open>this.db\<close> and the
  plain object \<^verbatim>\<open>this.factorySequences\<close> that holds the sequence counters (empty
  before the first call of \<^verbatim>\<open>build\<close>, which creates it). The database is a type
  parameter: its code (\<^verbatim>\<open>addon/db.js\<close>, \<^verbatim>\<open>addon/db-collection.js\<close>) is not
  among the sources.
\<close>

record 'db state =
  db :: 'db
  factorySequences :: jsobj

datatype assocKind = BelongsTo | HasMany

record association =
  kind :: assocKind
  modelName :: string

text \<open>
  The schema \<^verbatim>\<open>this.schema\<close> (\<^verbatim>\<open>addon/orm/schema.js\<close>, not among the sources), as the
  four things the factory methods ask of it: \<^verbatim>\<open>schema.modelFor(name)\<close> (is there a
  model), \<^verbatim>\<open>schema.modelClassFor(name)\<close> (which may throw) with the model class as its
  \<^verbatim>\<open>associationFor\<close>, whether \<^verbatim>\<open>schema[collectionName]\<close> exists, and its
  \<^verbatim>\<open>create(attrs)\<close>.
\<close>

record 'db schema =
  modelFor :: "string \<Rightarrow> bool"
  modelClassFor :: "string \<Rightarrow> error + (string \<Rightarrow> association option)"
  modelCollection :: "string \<Rightarrow> bool"
  modelCreate :: "string \<Rightarrow> jsval \<Rightarrow> 'db \<Rightarrow> (error + jsval) \<times> 'db"

text \<open>
  Everything else the methods call that is not in \<^verbatim>\<open>server.js\<close> is a field of the
  environment, so that every theorem holds for each implementation of it: the inflector
  and the name normalisers; \<^verbatim>\<open>isAssociation\<close>; the registered factories
  \<^verbatim>\<open>this._factoryMap\<close>, each factory class given by its \<^verbatim>\<open>attrs\<close>; of
  \<^verbatim>\<open>addon/factory.js\<close> the predicate \<^verbatim>\<open>isTrait\<close>, the instance method
  \<^verbatim>\<open>build(sequence)\<close> and \<^verbatim>\<open>extractAfterCreateCallbacks({traits})\<close>, whose
  callbacks are arbitrary transformers of the server's state that may throw;
  \<^verbatim>\<open>this.db[name]\<close> and the \<^verbatim>\<open>insert\<close> method of a collection. The sequence
  number that \<^verbatim>\<open>build(sequence)\<close> is given is whatever \<^verbatim>\<open>this.factorySequences\<close>
  holds. \<open>objectPlusOne\<close> is the runtime's \<^verbatim>\<open>v + 1\<close> for an object, an array or a
  function \<open>v\<close>, which the methods \<^verbatim>\<open>valueOf\<close> and \<^verbatim>\<open>toString\<close> of \<open>v\<close>
  decide: a number or a string.
\<close>

record 'db env =
  camelize :: "string \<Rightarrow> string"
  pluralize :: "string \<Rightarrow> string"
  singularize :: "string \<Rightarrow> string"
  toCollectionName :: "string \<Rightarrow> string"
  toInternalCollectionName :: "string \<Rightarrow> string"
  isAssociation :: "jsval \<Rightarrow> bool"
  factoryMap :: "string \<Rightarrow> jsobj option"
  isTrait :: "jsobj \<Rightarrow> string \<Rightarrow> bool"
  factoryBuild :: "jsobj \<Rightarrow> jsval \<Rightarrow> error + jsval"
  afterCreateCallbacks :: "jsobj \<Rightarrow> string list \<Rightarrow> (jsval \<Rightarrow> 'db state \<Rightarrow> (error + unit) \<times> 'db state) list"
  schema :: "'db schema option"
  dbGet :: "'db \<Rightarrow> string \<Rightarrow> jsval"
  collectionInsert :: "jsval \<Rightarrow> jsval \<Rightarrow> 'db \<Rightarrow> (error + jsval) \<times> 'db"
  objectPlusOne :: "jsval \<Rightarrow> rat + string"

text \<open>
  Modelled from the spec: \<^verbatim>\<open>Factory.extend\<close> of \<^verbatim>\<open>addon/factory.js\<close>, which is
  not among the sources. The subclass's attributes are a fresh object holding the
  class's attributes overlaid by the extension (base attributes have the lowest
  precedence); the class's own attributes are not mutated.
\<close>

definition Factory_extend :: "jsobj \<Rightarrow> jsobj \<Rightarrow> jsobj" where
  "Factory_extend attrs extension = assign (assign [] (JObj attrs)) (JObj extension)"

section \<open>The factory methods\<close>

definition factoryFor :: "'db env \<Rightarrow> string \<Rightarrow> jsobj option" where
  "factoryFor env type = factoryMap env (camelize env type)"

text \<open>
  The counters are JavaScript numbers, that is doubles. On the integers that a double
  holds, \<open>k + 1\<close> is exact up to \<open>2\<^sup>5\<^sup>3 = 9007199254740992\<close> in absolute value;
  beyond, where the doubles are 2 apart up to \<open>2\<^sup>5\<^sup>4\<close> and further apart after
  that, the sum is rounded to the nearest double, a tie to the one with the even
  significand. So \<open>2\<^sup>5\<^sup>3 + 1\<close> is \<open>2\<^sup>5\<^sup>3\<close> again. On a number with a fractional part
  the sum is taken as exact.
\<close>

definition integerPlusOne :: "int \<Rightarrow> int" where
  "integerPlusOne k =
     (if \<bar>k + 1\<bar> \<le> 9007199254740992 then k + 1
      else if \<bar>k\<bar> < 18014398509481984 then (if even (k div 2) then k else k + 2)
      else k)"

definition doublePlusOne :: "rat \<Rightarrow> rat" where
  "doublePlusOne r = (if r = of_int \<lfloor>r\<rfloor> then of_int (integerPlusOne \<lfloor>r\<rfloor>) else r + 1)"

text \<open>\<^verbatim>\<open>v + 1\<close>; \<open>None\<close> is \<^verbatim>\<open>NaN\<close>. A string is concatenated with \<^verbatim>\<open>'1'\<close>.\<close>

fun plusOne :: "'db env \<Rightarrow> jsval \<Rightarrow> jsval option" where
  "plusOne env JUndefined = None"
| "plusOne env JNull = Some (JNum 1)"
| "plusOne env (JBool b) = Some (JNum (if b then 2 else 1))"
| "plusOne env (JNum r) = Some (JNum (doublePlusOne r))"
| "plusOne env (JStr t) = Some (JStr (t @ ''1''))"
| "plusOne env (JArr xs) = Some (case objectPlusOne env (JArr xs) of Inl r \<Rightarrow> JNum r | Inr t \<Rightarrow> JStr t)"
| "plusOne env (JObj ps) = Some (case objectPlusOne env (JObj ps) of Inl r \<Rightarrow> JNum r | Inr t \<Rightarrow> JStr t)"
| "plusOne env (JHost c ps) = Some (case objectPlusOne env (JHost c ps) of Inl r \<Rightarrow> JNum r | Inr t \<Rightarrow> JStr t)"

text \<open>\<^verbatim>\<open>v + 1 || 0\<close>: \<^verbatim>\<open>undefined + 1\<close> is \<^verbatim>\<open>NaN\<close>, which is falsy, as are \<open>0\<close>
  and the empty string.\<close>

definition nextSequence :: "'db env \<Rightarrow> jsval \<Rightarrow> jsval" where
  "nextSequence env v =
     (case plusOne env v of
        None \<Rightarrow> JNum 0
      | Some v1 \<Rightarrow> if truthy v1 then v1 else JNum 0)"

text \<open>
  \<^verbatim>\<open>this.factorySequences[camelizedType] = this.factorySequences[camelizedType] + 1 || 0\<close>.
  The value is read as every property is, so under the name of a member of
  \<^verbatim>\<open>Object.prototype\<close> an object without a counter of that name gives the member.
  The assignment creates or overwrites the own property; under the name
  \<^verbatim>\<open>__proto__\<close>, when the object owns no such property, it runs the inherited setter
  instead, which ignores a number and a string.
\<close>

definition advanceSequence :: "'db env \<Rightarrow> 'db state \<Rightarrow> string \<Rightarrow> 'db state" where
  "advanceSequence env s camelizedType =
     (let sequences = factorySequences s;
          sequence = nextSequence env (lookup sequences camelizedType)
      in if camelizedType = ''__proto__'' \<and> map_of sequences camelizedType = None then s
         else s\<lparr>factorySequences := AList.update camelizedType sequence sequences\<rparr>)"

fun validateTraits :: "'db env \<Rightarrow> string list \<Rightarrow> jsobj \<Rightarrow> string \<Rightarrow> error + unit" where
  "validateTraits env [] factory type = Inr ()"
| "validateTraits env (t # traits) factory type =
     (if \<not> isTrait env factory t then Inl (TraitNotRegistered t type)
      else validateTraits env traits factory type)"

text \<open>\<^verbatim>\<open>traits.map((traitName) => attrs[traitName].extension)\<close>\<close>

fun traitExtensions :: "jsobj \<Rightarrow> string list \<Rightarrow> error + jsval list" where
  "traitExtensions attrs [] = Inr []"
| "traitExtensions attrs (t # traits) =
     (case getProp (lookup attrs t) ''extension'' of
        Inl e \<Rightarrow> Inl e
      | Inr x \<Rightarrow> (case traitExtensions attrs traits of
                   Inl e \<Rightarrow> Inl e
                 | Inr xs \<Rightarrow> Inr (x # xs)))"

definition mergeExtensions :: "jsobj \<Rightarrow> string list \<Rightarrow> jsval \<Rightarrow> error + jsobj" where
  "mergeExtensions attrs traits overrides =
     (case traitExtensions attrs traits of
        Inl e \<Rightarrow> Inl e
      | Inr allExtensions \<Rightarrow>
          Inr (foldl assign [] (allExtensions @ [if truthy overrides then overrides else JObj []])))"

text \<open>\<^verbatim>\<open>Object.keys(attributes || {}).filter((attr) => isAssociation(attributes[attr]))\<close>:
  the keys are fixed before the loop runs.\<close>

definition associationKeys :: "'db env \<Rightarrow> jsobj \<Rightarrow> string list" where
  "associationKeys env attributes =
     filter (\<lambda>attr. isAssociation env (lookup attributes attr)) (map fst attributes)"

fun modelOrFactoryExistsForTypeOrCollectionName :: "'db env \<Rightarrow> 'db state \<Rightarrow> string \<Rightarrow> bool" where
  "modelOrFactoryExistsForTypeOrCollectionName env s typeOrCollectionName =
     ((case schema env of None \<Rightarrow> False | Some sch \<Rightarrow> modelFor sch (camelize env typeOrCollectionName))
      \<or> truthy (dbGet env (db s) (toInternalCollectionName env typeOrCollectionName)))"

fun typeIsPluralForModel :: "'db env \<Rightarrow> 'db state \<Rightarrow> string \<Rightarrow> bool" where
  "typeIsPluralForModel env s typeOrCollectionName =
     (let modelOrFactoryExists = modelOrFactoryExistsForTypeOrCollectionName env s typeOrCollectionName;
          isPlural = (typeOrCollectionName = pluralize env typeOrCollectionName);
          isUncountable = (singularize env typeOrCollectionName = pluralize env typeOrCollectionName)
      in isPlural \<and> \<not> isUncountable \<and> modelOrFactoryExists)"

fun modelOrFactoryExistsForType :: "'db env \<Rightarrow> 'db state \<Rightarrow> string \<Rightarrow> bool" where
  "modelOrFactoryExistsForType env s type =
     (((case schema env of None \<Rightarrow> False | Some sch \<Rightarrow> modelFor sch (camelize env type))
       \<or> truthy (dbGet env (db s) (toInternalCollectionName env type)))
      \<and> \<not> typeIsPluralForModel env s type)"

text \<open>The name of the collection that \<^verbatim>\<open>create\<close> and \<^verbatim>\<open>createList\<close> look up in
  the database.\<close>

definition collectionNameFor :: "'db env \<Rightarrow> string \<Rightarrow> string" where
  "collectionNameFor env type =
     (case schema env of
        Some sch \<Rightarrow> toInternalCollectionName env type
      | None \<Rightarrow> ''_'' @ pluralize env type)"

text \<open>\<^verbatim>\<open>callbacks.forEach((afterCreate) => { afterCreate(modelOrRecord, this); })\<close>\<close>

fun runCallbacks :: "(jsval \<Rightarrow> 'db state \<Rightarrow> (error + unit) \<times> 'db state) list \<Rightarrow> jsval \<Rightarrow> 'db state
    \<Rightarrow> (error + unit) \<times> 'db state" where
  "runCallbacks [] modelOrRecord s = (Inr (), s)"
| "runCallbacks (afterCreate # callbacks) modelOrRecord s =
     (case afterCreate modelOrRecord s of
        (Inl e, s') \<Rightarrow> (Inl e, s')
      | (Inr u, s') \<Rightarrow> runCallbacks callbacks modelOrRecord s')"

text \<open>
  The part of \<^verbatim>\<open>create\<close> that stores the attributes. Without a model class for
  the type, they go into the first array among the arguments, if there is one, else
  into the collection of the database, which must exist.
\<close>

definition insertIntoCollection ::
    "'db env \<Rightarrow> 'db state \<Rightarrow> string \<Rightarrow> jsval list \<Rightarrow> jsval \<Rightarrow> (error + jsval) \<times> 'db state" where
  "insertIntoCollection env s type options attrs =
     (let collectionFromCreateList = find_js (\<lambda>arg. truthy arg \<and> isArray arg) options;
          collection = (if truthy collectionFromCreateList then collectionFromCreateList
                        else dbGet env (db s) (collectionNameFor env type))
      in if \<not> truthy collection then (Inl (NoCollection type), s)
         else (case collectionInsert env collection attrs (db s) of
                 (r, d) \<Rightarrow> (r, s\<lparr>db := d\<rparr>)))"

text \<open>\<^verbatim>\<open>if (this.schema && this.schema[toCollectionName(type)])\<close>: the model class
  creates the record; else the collection does.\<close>

definition insertRecord ::
    "'db env \<Rightarrow> 'db state \<Rightarrow> string \<Rightarrow> jsval list \<Rightarrow> jsval \<Rightarrow> (error + jsval) \<times> 'db state" where
  "insertRecord env s type options attrs =
     (case schema env of
        None \<Rightarrow> insertIntoCollection env s type options attrs
      | Some sch \<Rightarrow>
          if modelCollection sch (toCollectionName env type) then
            (case modelCreate sch (toCollectionName env type) attrs (db s) of
               (r, d) \<Rightarrow> (r, s\<lparr>db := d\<rparr>))
          else insertIntoCollection env s type options attrs)"

text \<open>
  \<^verbatim>\<open>build\<close>, \<^verbatim>\<open>create\<close> and \<^verbatim>\<open>_mapAssociationsFromAttributes\<close> call each
  other through \<^verbatim>\<open>this\<close>. Each body is written once, with the method it calls as
  its first argument (a \<open>server_method\<close> takes the state, the type and the rest arguments);
  the recursion is closed below by the call-stack depth. Every function returns the
  state it has reached, also when it throws: the mutations made before an exception
  stay.
\<close>

type_synonym 'db server_method = "'db state \<Rightarrow> string \<Rightarrow> jsval list \<Rightarrow> (error + jsval) \<times> 'db state"

text \<open>
  The callback of the \<^verbatim>\<open>forEach\<close> in \<^verbatim>\<open>_mapAssociationsFromAttributes\<close>, for one
  attribute, in three parts. First the association is looked up and the two assertions
  are made: the attribute is a \<^verbatim>\<open>belongsTo\<close> association of the model, and it does not
  point to the model itself.
\<close>

definition belongsToAssociation :: "'db env \<Rightarrow> string \<Rightarrow> string \<Rightarrow> error + association" where
  "belongsToAssociation env model attr =
     (case schema env of
        None \<Rightarrow> Inl (TypeError ''modelClassFor'')
      | Some sch \<Rightarrow>
          (case modelClassFor sch model of
             Inl e \<Rightarrow> Inl e
           | Inr associationFor \<Rightarrow>
               (case associationFor attr of
                  None \<Rightarrow> Inl (NotBelongsTo attr model)
                | Some association \<Rightarrow>
                    if kind association \<noteq> BelongsTo then Inl (NotBelongsTo attr model)
                    else if modelName association = model then Inl (SelfReferential model attr)
                    else Inr association)))"

text \<open>\<^verbatim>\<open>this.create(association.modelName, ...factoryAssociation.traitsAndOverrides).id\<close>;
  \<open>this_create\<close> is \<^verbatim>\<open>this.create\<close>.\<close>

definition createRelated ::
    "'db server_method \<Rightarrow> 'db state \<Rightarrow> association \<Rightarrow> jsval \<Rightarrow> (error + jsval) \<times> 'db state" where
  "createRelated this_create s association factoryAssociation =
     (case getProp factoryAssociation ''traitsAndOverrides'' of
        Inl e \<Rightarrow> (Inl e, s)
      | Inr traitsAndOverrides \<Rightarrow>
          (case spread traitsAndOverrides of
             Inl e \<Rightarrow> (Inl e, s)
           | Inr args \<Rightarrow>
               (case this_create s (modelName association) args of
                  (Inl e, s') \<Rightarrow> (Inl e, s')
                | (Inr related, s') \<Rightarrow>
                    (case getProp related ''id'' of
                       Inl e \<Rightarrow> (Inl e, s')
                     | Inr ident \<Rightarrow> (Inr ident, s')))))"

text \<open>The whole callback; it returns the attributes as it has mutated them.\<close>

definition mapAssociation ::
    "'db server_method \<Rightarrow> 'db env \<Rightarrow> 'db state \<Rightarrow> string \<Rightarrow> string \<Rightarrow> jsobj \<Rightarrow> jsval \<Rightarrow> (error + jsobj) \<times> 'db state" where
  "mapAssociation this_create env s model attr attributes overrides =
     (case belongsToAssociation env model attr of
        Inl e \<Rightarrow> (Inl e, s)
      | Inr association \<Rightarrow>
          (let factoryAssociation = lookup attributes attr;
               foreignKey = camelize env attr @ ''Id''
           in case getProp overrides attr of
                Inl e \<Rightarrow> (Inl e, s)
              | Inr override \<Rightarrow>
                  (if \<not> truthy override then
                     (case createRelated this_create s association factoryAssociation of
                        (Inl e, s') \<Rightarrow> (Inl e, s')
                      | (Inr ident, s') \<Rightarrow>
                          (Inr (AList.delete attr (AList.update foreignKey ident attributes)), s'))
                   else (Inr (AList.delete attr attributes), s))))"

fun forEachAssociation ::
    "'db server_method \<Rightarrow> 'db env \<Rightarrow> 'db state \<Rightarrow> string \<Rightarrow> string list \<Rightarrow> jsobj \<Rightarrow> jsval \<Rightarrow> (error + jsobj) \<times> 'db state" where
  "forEachAssociation this_create env s model [] attributes overrides = (Inr attributes, s)"
| "forEachAssociation this_create env s model (attr # rest) attributes overrides =
     (case mapAssociation this_create env s model attr attributes overrides of
        (Inl e, s') \<Rightarrow> (Inl e, s')
      | (Inr attributes', s') \<Rightarrow> forEachAssociation this_create env s' model rest attributes' overrides)"

text \<open>\<^verbatim>\<open>_mapAssociationsFromAttributes(modelName, attributes, overrides = {})\<close>\<close>

definition mapAssociationsFromAttributes ::
    "'db server_method \<Rightarrow> 'db env \<Rightarrow> 'db state \<Rightarrow> string \<Rightarrow> jsobj \<Rightarrow> jsval \<Rightarrow> (error + jsobj) \<times> 'db state" where
  "mapAssociationsFromAttributes this_create env s model attributes overrides =
     forEachAssociation this_create env s model (associationKeys env attributes) attributes
       (if overrides = JUndefined then JObj [] else overrides)"

text \<open>The body of \<^verbatim>\<open>build(type, ...traitsAndOverrides)\<close>.\<close>

definition buildWith :: "'db server_method \<Rightarrow> 'db env \<Rightarrow> 'db server_method" where
  "buildWith this_create env s type traitsAndOverrides =
     (let traits = traitNames traitsAndOverrides;
          overrides = find_js isPlainObject traitsAndOverrides;
          camelizedType = camelize env type;
          s1 = advanceSequence env s camelizedType
      in case factoryFor env type of
           None \<Rightarrow> (Inr overrides, s1)
         | Some OriginalFactory \<Rightarrow>
             (let attrs = Factory_extend OriginalFactory []
              in case validateTraits env traits attrs type of
                   Inl e \<Rightarrow> (Inl e, s1)
                 | Inr u \<Rightarrow>
                     (case mergeExtensions attrs traits overrides of
                        Inl e \<Rightarrow> (Inl e, s1)
                      | Inr mergedExtensions \<Rightarrow>
                          (case mapAssociationsFromAttributes this_create env s1 type attrs overrides of
                             (Inl e, s2) \<Rightarrow> (Inl e, s2)
                           | (Inr attrs', s2) \<Rightarrow>
                               (case mapAssociationsFromAttributes this_create env s2 type mergedExtensions JUndefined of
                                  (Inl e, s3) \<Rightarrow> (Inl e, s3)
                                | (Inr mergedExtensions', s3) \<Rightarrow>
                                    (case factoryBuild env (Factory_extend attrs' mergedExtensions')
                                            (lookup (factorySequences s3) camelizedType) of
                                       Inl e \<Rightarrow> (Inl e, s3)
                                     | Inr object \<Rightarrow> (Inr object, s3)))))))"

text \<open>The body of \<^verbatim>\<open>create(type, ...options)\<close>; \<open>this_build\<close> is \<^verbatim>\<open>this.build\<close>.\<close>

definition createWith :: "'db server_method \<Rightarrow> 'db env \<Rightarrow> 'db server_method" where
  "createWith this_build env s type options =
     (if \<not> modelOrFactoryExistsForType env s type then (Inl (NoModelOrFactory ''create'' type), s)
      else let traits = traitNames options;
               overrides = find_js isPlainObject options
           in case this_build s type (map JStr traits @ [overrides]) of
                (Inl e, s1) \<Rightarrow> (Inl e, s1)
              | (Inr attrs, s1) \<Rightarrow>
                  (case insertRecord env s1 type options attrs of
                     (Inl e, s2) \<Rightarrow> (Inl e, s2)
                   | (Inr modelOrRecord, s2) \<Rightarrow>
                       (case factoryFor env type of
                          None \<Rightarrow> (Inr modelOrRecord, s2)
                        | Some OriginalFactory \<Rightarrow>
                            (case runCallbacks (afterCreateCallbacks env OriginalFactory traits) modelOrRecord s2 of
                               (Inl e, s3) \<Rightarrow> (Inl e, s3)
                             | (Inr u, s3) \<Rightarrow> (Inr modelOrRecord, s3)))))"

text \<open>
  The methods themselves. The first argument is the call-stack depth that is left for
  nested calls of \<^verbatim>\<open>create\<close>: each one takes a frame, and with none left the call
  ends in \<open>StackExhausted\<close>, as the runtime's \<^verbatim>\<open>RangeError\<close> does.
\<close>

primrec create :: "nat \<Rightarrow> 'db env \<Rightarrow> 'db server_method" where
  "create 0 env = (\<lambda>s type options. (Inl StackExhausted, s))"
| "create (Suc n) env = createWith (buildWith (create n env) env) env"

definition build :: "nat \<Rightarrow> 'db env \<Rightarrow> 'db server_method" where
  "build n env = buildWith (create n env) env"

text \<open>The loop of \<^verbatim>\<open>buildList\<close> and \<^verbatim>\<open>createList\<close>, which calls the method
  \<^verbatim>\<open>amount\<close> times and collects what it returns; it stops at the first exception.\<close>

fun repeatCall :: "'db server_method \<Rightarrow> 'db state \<Rightarrow> string \<Rightarrow> jsval list \<Rightarrow> nat \<Rightarrow> (error + jsval list) \<times> 'db state" where
  "repeatCall this_method s type args 0 = (Inr [], s)"
| "repeatCall this_method s type args (Suc i) =
     (case this_method s type args of
        (Inl e, s') \<Rightarrow> (Inl e, s')
      | (Inr result, s') \<Rightarrow>
          (case repeatCall this_method s' type args i of
             (Inl e, s'') \<Rightarrow> (Inl e, s'')
           | (Inr list, s'') \<Rightarrow> (Inr (result # list), s'')))"

text \<open>\<^verbatim>\<open>for (let i = 0; i < amount; i++)\<close> with an integer \<^verbatim>\<open>amount\<close> runs
  \<open>nat \<lfloor>amount\<rfloor>\<close> times: not at all when the amount is negative.\<close>

fun iterations :: "jsval \<Rightarrow> nat" where
  "iterations (JNum r) = nat \<lfloor>r\<rfloor>"
| "iterations v = 0"

definition buildList :: "nat \<Rightarrow> 'db env \<Rightarrow> 'db state \<Rightarrow> string \<Rightarrow> jsval \<Rightarrow> jsval list \<Rightarrow> (error + jsval) \<times> 'db state" where
  "buildList n env s type amount traitsAndOverrides =
     (if \<not> isInteger amount then (Inl (NotAnInteger (typeof amount)), s)
      else case repeatCall (build n env) s type traitsAndOverrides (iterations amount) of
             (Inl e, s') \<Rightarrow> (Inl e, s')
           | (Inr list, s') \<Rightarrow> (Inr (JArr list), s'))"

definition createList :: "nat \<Rightarrow> 'db env \<Rightarrow> 'db state \<Rightarrow> string \<Rightarrow> jsval \<Rightarrow> jsval list \<Rightarrow> (error + jsval) \<times> 'db state" where
  "createList n env s type amount traitsAndOverrides =
     (if \<not> modelOrFactoryExistsForType env s type then (Inl (NoModelOrFactory ''createList'' type), s)
      else if \<not> isInteger amount then (Inl (NotAnInteger (typeof amount)), s)
      else let collectionName = collectionNameFor env type;
               collection = dbGet env (db s) collectionName
           in case repeatCall (create n env) s type (traitsAndOverrides @ [collection]) (iterations amount) of
                (Inl e, s') \<Rightarrow> (Inl e, s')
              | (Inr list, s') \<Rightarrow> (Inr (JArr list), s'))"

section \<open>An example configuration\<close>

text \<open>
  A small server on which the theorems below are instantiated: the models \<open>post\<close>
  (which belongs to an \<open>author\<close> and has many \<open>comments\<close>), \<open>author\<close>,
  \<open>category\<close> (which belongs to a parent \<open>category\<close>), \<open>tag\<close> (which has many
  \<open>posts\<close>), \<open>gadget\<close> (whose relationship to an \<open>author\<close> has the name
  \<open>valueOf\<close>), and \<open>node\<close> and \<open>peer\<close> (which belong to each other; the factory
  of the nodes makes a peer only under the trait \<open>linked\<close>), a factory for each, and a
  database of lists of records whose
  \<^verbatim>\<open>insert\<close> numbers the records of a collection from 1. \<open>placeholder\<close> is what the
  \<^verbatim>\<open>association(...)\<close> helper returns and \<open>trait\<close> what \<^verbatim>\<open>trait(...)\<close> returns.
  A factory's \<^verbatim>\<open>build(sequence)\<close> drops the traits and calls every attribute that
  is a function with the sequence number; \<open>generator\<close> is the attribute
  \<^verbatim>\<open>(i) => i\<close>. For \<^verbatim>\<open>v + 1\<close> a built-in function \<open>v\<close> is converted to the
  text \<^verbatim>\<open>function name() { [native code] }\<close> and every other object to
  \<^verbatim>\<open>[object Object]\<close>.
\<close>

type_synonym demo_db = "(string \<times> jsval list) list"

definition placeholder :: "jsval list \<Rightarrow> jsval" where
  "placeholder traitsAndOverrides =
     JObj [(''__isAssociation__'', JBool True), (''traitsAndOverrides'', JArr traitsAndOverrides)]"

definition trait :: "jsobj \<Rightarrow> jsval" where
  "trait extension = JObj [(''extension'', JObj extension), (''__isTrait__'', JBool True)]"

definition generator :: jsval where
  "generator = JHost ''Function'' [(''name'', JStr ''i'')]"

definition demoSchema :: "demo_db schema" where
  "demoSchema =
     \<lparr> modelFor = (\<lambda>name. name \<in> set [''post'', ''author'', ''category'', ''tag'', ''gadget'', ''node'', ''peer'']),
       modelClassFor = (\<lambda>name.
         if name = ''post'' then
           Inr (map_of [(''author'', \<lparr>kind = BelongsTo, modelName = ''author''\<rparr>),
                        (''comments'', \<lparr>kind = HasMany, modelName = ''comment''\<rparr>)])
         else if name = ''category'' then
           Inr (map_of [(''parent'', \<lparr>kind = BelongsTo, modelName = ''category''\<rparr>)])
         else if name = ''tag'' then
           Inr (map_of [(''posts'', \<lparr>kind = HasMany, modelName = ''post''\<rparr>)])
         else if name = ''gadget'' then
           Inr (map_of [(''valueOf'', \<lparr>kind = BelongsTo, modelName = ''author''\<rparr>)])
         else if name = ''node'' then
           Inr (map_of [(''peer'', \<lparr>kind = BelongsTo, modelName = ''peer''\<rparr>)])
         else if name = ''peer'' then
           Inr (map_of [(''node'', \<lparr>kind = BelongsTo, modelName = ''node''\<rparr>)])
         else if name = ''author'' then Inr (\<lambda>attr. None)
         else Inl (TypeError ''modelClassFor'')),
       modelCollection = (\<lambda>name. False),
       modelCreate = (\<lambda>name attrs d. (Inl (TypeError ''create''), d)) \<rparr>"

definition demoInsert :: "jsval \<Rightarrow> jsval \<Rightarrow> demo_db \<Rightarrow> (error + jsval) \<times> demo_db" where
  "demoInsert collection attrs d =
     (case lookup (ownProperties collection) ''name'' of
        JStr name \<Rightarrow>
          (case map_of d name of
             Some records \<Rightarrow>
               (let record = JObj (AList.update ''id'' (JNum (of_nat (length records) + 1)) (ownProperties attrs))
                in (Inr record, AList.update name (records @ [record]) d))
           | None \<Rightarrow> (Inl (TypeError ''insert''), d))
      | _ \<Rightarrow> (Inl (TypeError ''insert''), d))"

definition demoBuild :: "jsobj \<Rightarrow> jsval \<Rightarrow> error + jsval" where
  "demoBuild attrs sequence =
     Inr (JObj (map (\<lambda>p. (fst p, if snd p = generator then sequence else snd p))
                  (filter (\<lambda>p. lookup (ownProperties (snd p)) ''__isTrait__'' \<noteq> JBool True) attrs)))"

text \<open>The posts' author is an administrator of the name Link: the placeholder bundles a
  trait and an override.\<close>

definition authorBundle :: "jsval list" where
  "authorBundle = [JStr ''admin'', JObj [(''name'', JStr ''Link'')]]"

definition postFactory :: jsobj where
  "postFactory =
     [(''title'', JStr ''Lorem''), (''author'', placeholder authorBundle),
      (''published'', trait [(''status'', JStr ''published'')])]"

definition authorFactory :: jsobj where
  "authorFactory =
     [(''name'', JStr ''Zelda''), (''rank'', generator), (''admin'', trait [(''role'', JStr ''admin'')])]"

definition demoEnv :: "demo_db env" where
  "demoEnv =
     \<lparr> camelize = (\<lambda>name. name),
       pluralize = (\<lambda>name. name @ ''s''),
       singularize = (\<lambda>name. name),
       toCollectionName = (\<lambda>name. name @ ''s''),
       toInternalCollectionName = (\<lambda>name. ''_'' @ name @ ''s''),
       isAssociation = (\<lambda>v. lookup (ownProperties v) ''__isAssociation__'' = JBool True),
       factoryMap = map_of
         [(''post'', postFactory),
          (''author'', authorFactory),
          (''category'', [(''parent'', placeholder [])]),
          (''tag'', [(''posts'', placeholder [])]),
          (''gadget'', [(''valueOf'', placeholder authorBundle)]),
          (''node'', [(''index'', generator), (''linked'', trait [(''peer'', placeholder [])])]),
          (''peer'', [(''node'', placeholder [])])],
       isTrait = (\<lambda>attrs name. lookup (ownProperties (lookup attrs name)) ''__isTrait__'' = JBool True),
       factoryBuild = demoBuild,
       afterCreateCallbacks = (\<lambda>factory traits. []),
       schema = Some demoSchema,
       dbGet = (\<lambda>d name. case map_of d name of
                            Some records \<Rightarrow> JHost ''DbCollection'' [(''name'', JStr name)]
                          | None \<Rightarrow> JUndefined),
       collectionInsert = demoInsert,
       objectPlusOne = (\<lambda>v.
         case lookup (ownProperties v) ''name'' of
           JStr name \<Rightarrow>
             if typeof v = ''function'' then Inr (''function '' @ name @ ''() { [native code] }1'')
             else Inr ''[object Object]1''
         | _ \<Rightarrow> Inr ''[object Object]1'') \<rparr>"

definition demoState :: "demo_db state" where
  "demoState =
     \<lparr> db = [(''_posts'', []), (''_authors'', []), (''_categorys'', []), (''_tags'', []), (''_gadgets'', []),
             (''_nodes'', []), (''_peers'', [])],
       factorySequences = [] \<rparr>"

text \<open>The author that the placeholder of a post makes, and the state after it has been
  created in \<open>demoState\<close>.\<close>

definition link :: jsval where
  "link = JObj [(''name'', JStr ''Link''), (''rank'', JNum 0), (''role'', JStr ''admin''), (''id'', JNum 1)]"

definition demoStateWithAuthor :: "demo_db state" where
  "demoStateWithAuthor =
     \<lparr> db = [(''_posts'', []), (''_authors'', [link]), (''_categorys'', []), (''_tags'', []), (''_gadgets'', []),
             (''_nodes'', []), (''_peers'', [])],
       factorySequences = [(''author'', JNum 0)] \<rparr>"

text \<open>A state in which the counter of the authors has reached \<open>2\<^sup>5\<^sup>3\<close>.\<close>

definition demoStateAtLimit :: "demo_db state" where
  "demoStateAtLimit =
     \<lparr> db = [(''_posts'', []), (''_authors'', []), (''_categorys'', []), (''_tags'', []), (''_gadgets'', []),
             (''_nodes'', []), (''_peers'', [])],
       factorySequences = [(''author'', JNum 9007199254740992)] \<rparr>"

text \<open>The state after a node has been built under the trait \<open>linked\<close> in
  \<open>demoState\<close>: a peer has been made for it, and a node for the peer.\<close>

definition demoStateLinked :: "demo_db state" where
  "demoStateLinked =
     \<lparr> db = [(''_posts'', []), (''_authors'', []), (''_categorys'', []), (''_tags'', []), (''_gadgets'', []),
             (''_nodes'', [JObj [(''index'', JNum 1), (''id'', JNum 1)]]),
             (''_peers'', [JObj [(''nodeId'', JNum 1), (''id'', JNum 1)]])],
       factorySequences = [(''node'', JNum 1), (''peer'', JNum 0)] \<rparr>"

text \<open>The example of the specification for trait precedence: base \<^verbatim>\<open>{a: 1}\<close> with the
  traits \<^verbatim>\<open>X = {a: 2, b: 2}\<close> and \<^verbatim>\<open>Y = {b: 3}\<close>.\<close>

definition precedenceAttrs :: jsobj where
  "precedenceAttrs =
     [(''a'', JNum 1),
      (''X'', trait [(''a'', JNum 2), (''b'', JNum 2)]),
      (''Y'', trait [(''b'', JNum 3)])]"

section \<open>Auxiliary facts\<close>

subsection \<open>Arguments: trait names and the override map\<close>

lemma map_filter_append: "List.map_filter f (xs @ ys) = List.map_filter f xs @ List.map_filter f ys"
  by (simp add: List.map_filter_def)

lemma traitNames_JStr: "traitNames (map JStr (traitNames args)) = traitNames args"
  unfolding traitNames_def
proof (induction args)
  case Nil
  show ?case by simp
next
  case (Cons a args)
  show ?case
  proof (cases "traitName a")
    case None
    with Cons show ?thesis by simp
  next
    case (Some t)
    then have "a = JStr t" "t \<noteq> []" by (cases a; simp split: if_splits)+
    with Cons Some show ?thesis by simp
  qed
qed

lemma find_js_cases: "find_js isPlainObject args = JUndefined \<or> isPlainObject (find_js isPlainObject args)"
proof (cases "List.find isPlainObject args")
  case None
  then show ?thesis by (simp add: find_js_def)
next
  case (Some v)
  then have "isPlainObject v" by (auto simp: find_Some_iff)
  with Some show ?thesis by (simp add: find_js_def)
qed

lemma traitName_find_js: "traitName (find_js isPlainObject args) = None"
  using find_js_cases [of args] by (cases "find_js isPlainObject args") auto

lemma traitNames_normalised:
  "traitNames (map JStr (traitNames args) @ [find_js isPlainObject args]) = traitNames args"
proof -
  have "traitNames (map JStr (traitNames args) @ [find_js isPlainObject args])
        = traitNames (map JStr (traitNames args)) @ traitNames [find_js isPlainObject args]"
    by (simp add: traitNames_def map_filter_append)
  also have "traitNames [find_js isPlainObject args] = []"
    by (simp add: traitNames_def traitName_find_js)
  finally show ?thesis by (simp add: traitNames_JStr)
qed

lemma find_isPlainObject_JStr: "List.find isPlainObject (map JStr ts @ ys) = List.find isPlainObject ys"
  by (induction ts) simp_all

lemma find_js_normalised:
  "find_js isPlainObject (map JStr ts @ [find_js isPlainObject args]) = find_js isPlainObject args"
  using find_js_cases [of args]
  by (auto simp: find_js_def find_isPlainObject_JStr split: option.splits)

text \<open>\<^verbatim>\<open>build\<close> reads its rest arguments only through the trait names and the first
  plain object, so the call \<^verbatim>\<open>this.build(type, ...traits, overrides)\<close> made by
  \<^verbatim>\<open>create\<close> is the call on the original arguments.\<close>

lemma buildWith_args:
  "traitNames args = traitNames args' \<Longrightarrow> find_js isPlainObject args = find_js isPlainObject args'
   \<Longrightarrow> buildWith c env s type args = buildWith c env s type args'"
  by (simp add: buildWith_def)

lemma build_normalised:
  "build n env s type (map JStr (traitNames args) @ [find_js isPlainObject args]) = build n env s type args"
  unfolding build_def by (rule buildWith_args) (simp_all add: traitNames_normalised find_js_normalised)



subsection \<open>The sequence counter\<close>

lemma db_advanceSequence [simp]: "db (advanceSequence env s name) = db s"
  by (simp add: advanceSequence_def Let_def)

lemma inheritedMember_other: "k \<notin> set objectPrototypeNames \<Longrightarrow> inheritedMember k = JUndefined"
  by (auto simp: inheritedMember_def objectPrototypeNames_def)

lemma inheritedMember_truthy: "k \<in> set objectPrototypeNames \<Longrightarrow> truthy (inheritedMember k)"
  by (auto simp: inheritedMember_def)











subsection \<open>Trait validation\<close>

lemma validateTraits_unknown:
  "List.find (\<lambda>t. \<not> isTrait env factory t) traits = Some t
   \<Longrightarrow> validateTraits env traits factory type = Inl (TraitNotRegistered t type)"
  by (induction traits) (auto split: if_splits)

lemma buildWith_unknown_trait:
  assumes "factoryFor env type = Some factory"
      and "List.find (\<lambda>t. \<not> isTrait env (Factory_extend factory []) t) (traitNames args) = Some t"
  shows "buildWith c env s type args = (Inl (TraitNotRegistered t type), advanceSequence env s (camelize env type))"
  using assms by (simp add: buildWith_def Let_def validateTraits_unknown)

subsection \<open>Merging\<close>






subsection \<open>Associations\<close>

lemma mapAssociation_selfReferential:
  assumes "schema env = Some sch" and "modelClassFor sch model = Inr associationFor"
      and "associationFor attr = Some a" and "kind a = BelongsTo" and "modelName a = model"
  shows "mapAssociation c env s model attr attributes overrides = (Inl (SelfReferential model attr), s)"
  using assms by (simp add: mapAssociation_def belongsToAssociation_def)

lemma mapAssociation_notBelongsTo:
  assumes "schema env = Some sch" and "modelClassFor sch model = Inr associationFor"
      and "associationFor attr = None \<or> (\<exists>a. associationFor attr = Some a \<and> kind a \<noteq> BelongsTo)"
  shows "mapAssociation c env s model attr attributes overrides = (Inl (NotBelongsTo attr model), s)"
  using assms by (auto simp: mapAssociation_def belongsToAssociation_def)

text \<open>A key on which the callback throws, whatever the state and the attributes, makes
  the whole loop throw: on that key, or on an earlier one.\<close>

lemma forEachAssociation_fails:
  assumes "\<And>s attributes. isl (fst (mapAssociation c env s model attr attributes overrides))"
      and "attr \<in> set keys"
  shows "isl (fst (forEachAssociation c env s model keys attributes overrides))"
  using assms(2)
proof (induction keys arbitrary: s attributes)
  case Nil
  then show ?case by simp
next
  case (Cons k keys)
  obtain r s' where step: "mapAssociation c env s model k attributes overrides = (r, s')"
    by (cases "mapAssociation c env s model k attributes overrides")
  show ?case
  proof (cases r)
    case (Inl e)
    with step show ?thesis by simp
  next
    case (Inr attributes')
    with step assms(1) [of s attributes] have "k \<noteq> attr" by auto
    with Cons.prems have "attr \<in> set keys" by simp
    from Cons.IH [OF this] step Inr show ?thesis by simp
  qed
qed

lemma buildWith_fails:
  assumes "factoryFor env type = Some factory"
      and "\<And>s overrides. isl (fst (mapAssociationsFromAttributes c env s type (Factory_extend factory []) overrides))"
  shows "isl (fst (buildWith c env s type args))"
proof -
  let ?s1 = "advanceSequence env s (camelize env type)"
  let ?ov = "find_js isPlainObject args"
  obtain e s2 where "mapAssociationsFromAttributes c env ?s1 type (Factory_extend factory []) ?ov = (Inl e, s2)"
    using assms(2) [of ?s1 ?ov]
    by (cases "mapAssociationsFromAttributes c env ?s1 type (Factory_extend factory []) ?ov") (auto simp: isl_def)
  with assms(1) show ?thesis
    by (simp add: buildWith_def Let_def split: sum.splits)
qed

lemma buildWith_fails_merged:
  assumes "factoryFor env type = Some factory"
      and "\<And>s attributes overrides. attr \<in> set (associationKeys env attributes)
             \<Longrightarrow> isl (fst (mapAssociationsFromAttributes c env s type attributes overrides))"
      and "mergeExtensions (Factory_extend factory []) (traitNames args) (find_js isPlainObject args) = Inr merged"
      and "attr \<in> set (associationKeys env merged)"
  shows "isl (fst (buildWith c env s type args))"
proof -
  let ?s1 = "advanceSequence env s (camelize env type)"
  let ?ov = "find_js isPlainObject args"
  let ?attrs = "Factory_extend factory []"
  obtain r s2 where first: "mapAssociationsFromAttributes c env ?s1 type ?attrs ?ov = (r, s2)"
    by (cases "mapAssociationsFromAttributes c env ?s1 type ?attrs ?ov")
  obtain e s3 where second: "mapAssociationsFromAttributes c env s2 type merged JUndefined = (Inl e, s3)"
    using assms(2) [OF assms(4), of s2 JUndefined]
    by (cases "mapAssociationsFromAttributes c env s2 type merged JUndefined") (auto simp: isl_def)
  show ?thesis
    using assms(1,3) first second
    by (cases r) (simp_all add: buildWith_def Let_def split: sum.splits)
qed












lemma belongsToAssociation_other:
  assumes "schema env = Some sch" and "modelClassFor sch model = Inr associationFor"
      and "associationFor attr = Some a" and "kind a = BelongsTo" and "modelName a \<noteq> model"
  shows "belongsToAssociation env model attr = Inr a"
  using assms by (simp add: belongsToAssociation_def)

text \<open>The callback reads the overrides only through \<^verbatim>\<open>!overrides[attr]\<close>.\<close>

lemma mapAssociation_overrides_cong:
  assumes "map_sum id truthy (getProp overrides attr) = map_sum id truthy (getProp overrides' attr)"
  shows "mapAssociation c env s model attr attributes overrides
         = mapAssociation c env s model attr attributes overrides'"
proof (cases "belongsToAssociation env model attr")
  case (Inl e)
  then show ?thesis by (simp add: mapAssociation_def)
next
  case assoc: (Inr a)
  show ?thesis
  proof (cases "getProp overrides attr")
    case (Inl e)
    with assms have "getProp overrides' attr = Inl e"
      by (cases "getProp overrides' attr") simp_all
    with Inl assoc show ?thesis by (simp add: mapAssociation_def)
  next
    case (Inr v)
    with assms obtain v' where "getProp overrides' attr = Inr v'" "truthy v' = truthy v"
      by (cases "getProp overrides' attr") simp_all
    with Inr assoc show ?thesis by (simp add: mapAssociation_def)
  qed
qed

lemma forEachAssociation_overrides_cong:
  assumes "\<forall>attr \<in> set keys. map_sum id truthy (getProp overrides attr) = map_sum id truthy (getProp overrides' attr)"
  shows "forEachAssociation c env s model keys attributes overrides
         = forEachAssociation c env s model keys attributes overrides'"
  using assms
proof (induction keys arbitrary: s attributes)
  case Nil
  show ?case by simp
next
  case (Cons k keys)
  from Cons.prems have head: "mapAssociation c env s model k attributes overrides
             = mapAssociation c env s model k attributes overrides'"
    by (intro mapAssociation_overrides_cong) (metis list.set_intros(1))
  from Cons.prems have tail: "forEachAssociation c env s' model keys attributes' overrides
             = forEachAssociation c env s' model keys attributes' overrides'" for s' attributes'
    by (intro Cons.IH ballI) (metis list.set_intros(2))
  show ?case
    by (simp only: forEachAssociation.simps head tail)
qed

subsection \<open>The example configuration\<close>

lemmas demo_defs = demoEnv_def demoSchema_def demoState_def demoStateWithAuthor_def demoStateAtLimit_def
  demoStateLinked_def
  demoInsert_def demoBuild_def generator_def placeholder_def trait_def postFactory_def authorFactory_def
  authorBundle_def link_def precedenceAttrs_def

lemmas model_defs = build_def buildWith_def createWith_def traitNames_def find_js_def factoryFor_def
  advanceSequence_def nextSequence_def doublePlusOne_def integerPlusOne_def Factory_extend_def assign_def
  mergeExtensions_def mapAssociationsFromAttributes_def associationKeys_def lookup_def inheritedMember_def
  objectPrototypeNames_def insertRecord_def insertIntoCollection_def collectionNameFor_def
  mapAssociation_def belongsToAssociation_def createRelated_def Let_def

lemma demoEnv_sel:
  "camelize demoEnv = (\<lambda>name. name)"
  "schema demoEnv = Some demoSchema"
  by (simp_all add: demoEnv_def)

lemma floor_three_halves: "\<lfloor>3 / 2 :: rat\<rfloor> = 1"
  by (simp add: floor_eq_iff)

lemma floor_minus_one: "\<lfloor>- 1 :: rat\<rfloor> = - 1"
  by (simp add: floor_eq_iff)

lemma demo_exists: "modelOrFactoryExistsForType demoEnv demoState ''post''"
  by (simp add: demo_defs)

lemma demo_factoryFor:
  "factoryFor demoEnv ''comment'' = None"
  "factoryFor demoEnv ''post'' = Some postFactory"
  "factoryFor demoEnv ''author'' = Some authorFactory"
  "factoryFor demoEnv ''category'' = Some [(''parent'', placeholder [])]"
  "factoryFor demoEnv ''tag'' = Some [(''posts'', placeholder [])]"
  "factoryFor demoEnv ''gadget'' = Some [(''valueOf'', placeholder authorBundle)]"
  "factoryFor demoEnv ''node'' = Some [(''index'', generator), (''linked'', trait [(''peer'', placeholder [])])]"
  by (simp_all add: factoryFor_def demoEnv_def)

lemma demo_modelClassFor:
  "modelClassFor demoSchema ''post''
     = Inr (map_of [(''author'', \<lparr>kind = BelongsTo, modelName = ''author''\<rparr>),
                    (''comments'', \<lparr>kind = HasMany, modelName = ''comment''\<rparr>)])"
  "modelClassFor demoSchema ''category''
     = Inr (map_of [(''parent'', \<lparr>kind = BelongsTo, modelName = ''category''\<rparr>)])"
  "modelClassFor demoSchema ''tag''
     = Inr (map_of [(''posts'', \<lparr>kind = HasMany, modelName = ''post''\<rparr>)])"
  "modelClassFor demoSchema ''gadget''
     = Inr (map_of [(''valueOf'', \<lparr>kind = BelongsTo, modelName = ''author''\<rparr>)])"
  by (simp_all add: demoSchema_def)

lemma demo_create_author:
  "create (Suc 0) demoEnv demoState ''author'' authorBundle = (Inr link, demoStateWithAuthor)"
  by (simp add: demo_defs model_defs)

lemma demo_associationKeys_post: "associationKeys demoEnv postFactory = [''author'']"
  by (simp add: demo_defs associationKeys_def lookup_def inheritedMember_def objectPrototypeNames_def)

lemma not_inherited:
  "inheritedMember ''author'' = JUndefined"
  "inheritedMember ''__isAssociation__'' = JUndefined"
  "inheritedMember ''__isTrait__'' = JUndefined"
  "inheritedMember ''extension'' = JUndefined"
  "inheritedMember ''traitsAndOverrides'' = JUndefined"
  "inheritedMember ''id'' = JUndefined"
  by (simp_all add: inheritedMember_def objectPrototypeNames_def)




section \<open>The claims\<close>

subsection \<open>C1: the amount of \<^verbatim>\<open>createList\<close>\<close>

text \<open>
  C1, as the specification states it: \<^verbatim>\<open>createList(T, -1)\<close> and
  \<^verbatim>\<open>createList(T, 1.5)\<close> both fail with a validation error, the amount having to be a
  non-negative integer. The code asserts \<^verbatim>\<open>_isInteger(amount)\<close> only, so a negative
  integer passes and the loop \<^verbatim>\<open>for (i = 0; i < amount; i++)\<close> never runs. At the
  amount \<open>-1\<close> the call returns the empty list and leaves the state as it was.
\<close>

theorem createList_negative_amount_counterexample:
  "createList (Suc 0) demoEnv demoState ''post'' (JNum (- 1)) [] = (Inr (JArr []), demoState)"
  by (simp add: createList_def Let_def demo_exists floor_minus_one del: modelOrFactoryExistsForType.simps)

text \<open>
  C1, amended: for a type that passes the first assertion of \<^verbatim>\<open>createList\<close> (a model
  or a collection exists for it), an amount that is not an integer makes
  \<^verbatim>\<open>createList\<close> fail with the error of the integer assertion, in the state in which it
  was called, so before any record is created; an integer amount that is zero or
  negative makes it return the empty list, in the same state.
\<close>

theorem createList_requires_integer_amount:
  assumes "modelOrFactoryExistsForType env s type"
  shows "(\<not> isInteger amount \<longrightarrow>
            createList n env s type amount args = (Inl (NotAnInteger (typeof amount)), s))
         \<and> (k \<le> 0 \<longrightarrow> createList n env s type (JNum (of_int k)) args = (Inr (JArr []), s))"
  using assms by (simp add: createList_def Let_def del: modelOrFactoryExistsForType.simps)

theorem createList_requires_integer_amount_witness:
  "createList 0 demoEnv demoState ''post'' (JNum (3 / 2)) [] = (Inl (NotAnInteger ''number''), demoState)
   \<and> createList 0 demoEnv demoState ''post'' (JNum 0) [] = (Inr (JArr []), demoState)"
proof -
  note w = createList_requires_integer_amount [OF demo_exists, of "JNum (3 / 2)" 0 "[]" 0]
  have 1: "createList 0 demoEnv demoState ''post'' (JNum (3 / 2)) [] = (Inl (NotAnInteger ''number''), demoState)"
    using w [THEN conjunct1] by (simp add: floor_three_halves)
  have 2: "createList 0 demoEnv demoState ''post'' (JNum 0) [] = (Inr (JArr []), demoState)"
    using w [THEN conjunct2] by simp
  from 1 2 show ?thesis by (intro conjI)
qed

subsection \<open>C2: an override of the relationship attribute\<close>

text \<open>
  C2, as the specification states it: when the overrides supply a value for the key of
  a belongs-to placeholder, no related record is created and no foreign key is
  synthesized. The code tests \<^verbatim>\<open>!overrides[attr]\<close>, the truthiness of the value: the
  override \<^verbatim>\<open>{author: null}\<close> supplies a value for \<^verbatim>\<open>author\<close>, and still an author
  is created, from the trait and the override that the placeholder bundles, and
  \<^verbatim>\<open>authorId\<close> is set to its identity.
\<close>

theorem null_override_counterexample:
  "map_of [(''author'', JNull)] ''author'' = Some JNull
   \<and> mapAssociationsFromAttributes (create (Suc 0) demoEnv) demoEnv demoState ''post''
        [(''author'', placeholder [JStr ''admin'', JObj [(''name'', JStr ''Link'')]])] (JObj [(''author'', JNull)])
      = (Inr [(''authorId'', JNum 1)], demoStateWithAuthor)
   \<and> map_of (db demoState) ''_authors'' = Some []
   \<and> map_of (db demoStateWithAuthor) ''_authors''
       = Some [JObj [(''name'', JStr ''Link''), (''rank'', JNum 0), (''role'', JStr ''admin''), (''id'', JNum 1)]]"
  by (simp add: demo_defs model_defs)

text \<open>
  C2, amended: let the attribute be a declared belongs-to relationship to another model,
  and let the loop of \<^verbatim>\<open>_mapAssociationsFromAttributes\<close> reach it in some state with
  some attributes. If \<^verbatim>\<open>overrides[attr]\<close> is truthy (an own truthy value of the
  overrides or, when they own nothing under a key that names a member of
  \<^verbatim>\<open>Object.prototype\<close>, that member), the loop goes on in the same state
  (\<^verbatim>\<open>create\<close> is not called) with the key removed and nothing else changed.
  Otherwise \<^verbatim>\<open>create\<close> is called once, for the target model and with exactly the
  arguments that the placeholder bundles; when it returns a record, the loop goes on in
  the state \<^verbatim>\<open>create\<close> has left, with the foreign key (the camelized key followed by
  \<^verbatim>\<open>Id\<close>) set to the record's \<^verbatim>\<open>id\<close> and the placeholder's key removed; when it
  throws, the loop throws the same error.
\<close>

theorem truthy_override_suppresses_creation:
  assumes "schema env = Some sch" and "modelClassFor sch model = Inr associationFor"
      and "associationFor attr = Some a" and "kind a = BelongsTo" and "modelName a \<noteq> model"
  shows "(truthy (lookup overrides attr) \<longrightarrow>
            forEachAssociation (create n env) env s model (attr # rest) attributes (JObj overrides)
              = forEachAssociation (create n env) env s model rest (AList.delete attr attributes) (JObj overrides))
         \<and> (\<not> truthy (lookup overrides attr)
              \<and> getProp (lookup attributes attr) ''traitsAndOverrides'' = Inr (JArr args)
              \<and> create n env s (modelName a) args = (Inr related, s')
              \<and> getProp related ''id'' = Inr ident \<longrightarrow>
            forEachAssociation (create n env) env s model (attr # rest) attributes (JObj overrides)
              = forEachAssociation (create n env) env s' model rest
                  (AList.delete attr (AList.update (camelize env attr @ ''Id'') ident attributes)) (JObj overrides))
         \<and> (\<not> truthy (lookup overrides attr)
              \<and> getProp (lookup attributes attr) ''traitsAndOverrides'' = Inr (JArr args)
              \<and> create n env s (modelName a) args = (Inl e, s') \<longrightarrow>
            forEachAssociation (create n env) env s model (attr # rest) attributes (JObj overrides) = (Inl e, s'))"
proof -
  note assoc = belongsToAssociation_other [OF assms]
  have "forEachAssociation (create n env) env s model (attr # rest) attributes (JObj overrides)
          = forEachAssociation (create n env) env s model rest (AList.delete attr attributes) (JObj overrides)"
    if "truthy (lookup overrides attr)"
    using that by (simp add: mapAssociation_def createRelated_def assoc)
  moreover have "forEachAssociation (create n env) env s model (attr # rest) attributes (JObj overrides)
          = forEachAssociation (create n env) env s' model rest
              (AList.delete attr (AList.update (camelize env attr @ ''Id'') ident attributes)) (JObj overrides)"
    if "\<not> truthy (lookup overrides attr)"
       "getProp (lookup attributes attr) ''traitsAndOverrides'' = Inr (JArr args)"
       "create n env s (modelName a) args = (Inr related, s')"
       "getProp related ''id'' = Inr ident"
    using that by (simp add: mapAssociation_def createRelated_def assoc)
  moreover have "forEachAssociation (create n env) env s model (attr # rest) attributes (JObj overrides) = (Inl e, s')"
    if "\<not> truthy (lookup overrides attr)"
       "getProp (lookup attributes attr) ''traitsAndOverrides'' = Inr (JArr args)"
       "create n env s (modelName a) args = (Inl e, s')"
    using that by (simp add: mapAssociation_def createRelated_def assoc)
  ultimately show ?thesis by blast
qed

text \<open>The witness: a post with the override \<^verbatim>\<open>{author: 7}\<close>, a post with no
  override, whose author is created from the bundled trait \<open>admin\<close> and the bundled
  override of the name, and a gadget with no override, whose relationship has the name
  \<open>valueOf\<close>.\<close>

theorem truthy_override_suppresses_creation_witness:
  "forEachAssociation (create (Suc 0) demoEnv) demoEnv demoState ''post'' [''author''] postFactory
       (JObj [(''author'', JNum 7)])
     = (Inr [(''title'', JStr ''Lorem''), (''published'', trait [(''status'', JStr ''published'')])], demoState)
   \<and> forEachAssociation (create (Suc 0) demoEnv) demoEnv demoState ''post'' [''author''] postFactory (JObj [])
     = (Inr [(''title'', JStr ''Lorem''), (''published'', trait [(''status'', JStr ''published'')]),
             (''authorId'', JNum 1)], demoStateWithAuthor)
   \<and> map_of (db demoStateWithAuthor) ''_authors''
       = Some [JObj [(''name'', JStr ''Link''), (''rank'', JNum 0), (''role'', JStr ''admin''), (''id'', JNum 1)]]
   \<and> forEachAssociation (create (Suc 0) demoEnv) demoEnv demoState ''gadget'' [''valueOf'']
       [(''valueOf'', placeholder authorBundle)] (JObj [])
     = (Inr [], demoState)"
proof -
  have a: "map_of [(''author'', \<lparr>kind = BelongsTo, modelName = ''author''\<rparr>),
                   (''comments'', \<lparr>kind = HasMany, modelName = ''comment''\<rparr>)] ''author''
           = Some \<lparr>kind = BelongsTo, modelName = ''author''\<rparr>"
    by simp
  have g: "map_of [(''valueOf'', \<lparr>kind = BelongsTo, modelName = ''author''\<rparr>)] ''valueOf''
           = Some \<lparr>kind = BelongsTo, modelName = ''author''\<rparr>"
    by simp
  note w = truthy_override_suppresses_creation [OF demoEnv_sel(2) demo_modelClassFor(1) a,
      where n = "Suc 0" and s = demoState and rest = "[]" and attributes = postFactory]
  note v = truthy_override_suppresses_creation [OF demoEnv_sel(2) demo_modelClassFor(4) g,
      where n = "Suc 0" and s = demoState and rest = "[]" and attributes = "[(''valueOf'', placeholder authorBundle)]"
        and overrides = "[]"]
  have 1: "forEachAssociation (create (Suc 0) demoEnv) demoEnv demoState ''post'' [''author''] postFactory
       (JObj [(''author'', JNum 7)])
     = (Inr [(''title'', JStr ''Lorem''), (''published'', trait [(''status'', JStr ''published'')])], demoState)"
    using w [where overrides = "[(''author'', JNum 7)]", THEN conjunct1]
    by (simp add: lookup_def postFactory_def)
  have 2: "forEachAssociation (create (Suc 0) demoEnv) demoEnv demoState ''post'' [''author''] postFactory (JObj [])
     = (Inr [(''title'', JStr ''Lorem''), (''published'', trait [(''status'', JStr ''published'')]),
             (''authorId'', JNum 1)], demoStateWithAuthor)"
    using w [where overrides = "[]" and args = authorBundle and related = link
               and s' = demoStateWithAuthor and ident = "JNum 1", THEN conjunct2, THEN conjunct1]
    by (simp add: lookup_def not_inherited postFactory_def placeholder_def link_def demo_create_author demoEnv_sel
          del: create.simps)
  have 3: "forEachAssociation (create (Suc 0) demoEnv) demoEnv demoState ''gadget'' [''valueOf'']
       [(''valueOf'', placeholder authorBundle)] (JObj [])
     = (Inr [], demoState)"
    using v [THEN conjunct1]
    by (simp add: lookup_def inheritedMember_def objectPrototypeNames_def del: create.simps)
  have 4: "map_of (db demoStateWithAuthor) ''_authors''
       = Some [JObj [(''name'', JStr ''Link''), (''rank'', JNum 0), (''role'', JStr ''admin''), (''id'', JNum 1)]]"
    by (simp add: demoStateWithAuthor_def link_def)
  from 1 2 4 3 show ?thesis by (intro conjI)
qed

subsection \<open>C3: a placeholder on a self-referential relationship\<close>

text \<open>
  C3: a placeholder on an attribute whose declared belongs-to relationship points to
  the model itself always fails with the error of the self-reference assertion, and no
  related record is created. When the loop of \<^verbatim>\<open>_mapAssociationsFromAttributes\<close>
  reaches such a key it throws that error in the state it is in, whatever
  \<^verbatim>\<open>this.create\<close> would do (it is not called); a loop over keys that include such a
  key never completes; and \<^verbatim>\<open>build\<close> for a model never returns attributes when
  such a placeholder is among the factory's attributes, or among the merged trait
  extensions and overrides.
\<close>

theorem self_referential_placeholder_fails:
  assumes "schema env = Some sch" and "modelClassFor sch model = Inr associationFor"
      and "associationFor attr = Some a" and "kind a = BelongsTo" and "modelName a = model"
  shows "forEachAssociation this_create env s model (attr # rest) attributes overrides
           = (Inl (SelfReferential model attr), s)
         \<and> (attr \<in> set keys \<longrightarrow>
              isl (fst (forEachAssociation this_create env s model keys attributes overrides)))
         \<and> (factoryFor env model = Some factory \<and> attr \<in> set (associationKeys env (Factory_extend factory [])) \<longrightarrow>
              isl (fst (build n env s model args)))
         \<and> (factoryFor env model = Some factory
              \<and> mergeExtensions (Factory_extend factory []) (traitNames args) (find_js isPlainObject args) = Inr merged
              \<and> attr \<in> set (associationKeys env merged) \<longrightarrow>
              isl (fst (build n env s model args)))"
proof -
  note step = mapAssociation_selfReferential [OF assms]
  have fails: "isl (fst (forEachAssociation c env s' model keys' attributes' overrides'))"
    if "attr \<in> set keys'" for c s' keys' attributes' overrides'
    by (rule forEachAssociation_fails [OF _ that]) (simp add: step)
  have "isl (fst (build n env s model args))"
    if "factoryFor env model = Some factory" "attr \<in> set (associationKeys env (Factory_extend factory []))"
    unfolding build_def
    by (rule buildWith_fails [OF that(1)]) (simp add: mapAssociationsFromAttributes_def fails that(2))
  moreover have "isl (fst (build n env s model args))"
    if "factoryFor env model = Some factory"
       "mergeExtensions (Factory_extend factory []) (traitNames args) (find_js isPlainObject args) = Inr merged"
       "attr \<in> set (associationKeys env merged)"
    unfolding build_def
    by (rule buildWith_fails_merged [OF that(1) _ that(2,3)]) (simp add: mapAssociationsFromAttributes_def fails)
  ultimately show ?thesis
    by (simp add: step fails)
qed

theorem self_referential_placeholder_fails_witness:
  "forEachAssociation (create 0 demoEnv) demoEnv demoState ''category'' [''parent'']
       [(''parent'', placeholder [])] (JObj [])
     = (Inl (SelfReferential ''category'' ''parent''), demoState)
   \<and> isl (fst (build 0 demoEnv demoState ''category'' []))"
proof -
  have a: "map_of [(''parent'', \<lparr>kind = BelongsTo, modelName = ''category''\<rparr>)] ''parent''
           = Some \<lparr>kind = BelongsTo, modelName = ''category''\<rparr>"
    by simp
  note w = self_referential_placeholder_fails [OF demoEnv_sel(2) demo_modelClassFor(2) a,
      where s = demoState and this_create = "create 0 demoEnv" and rest = "[]"
        and attributes = "[(''parent'', placeholder [])]" and overrides = "JObj []"
        and factory = "[(''parent'', placeholder [])]" and n = 0 and args = "[]"]
  have keys: "''parent'' \<in> set (associationKeys demoEnv (Factory_extend [(''parent'', placeholder [])] []))"
    by (simp add: demo_defs associationKeys_def lookup_def Factory_extend_def assign_def)
  have 1: "forEachAssociation (create 0 demoEnv) demoEnv demoState ''category'' [''parent'']
       [(''parent'', placeholder [])] (JObj [])
     = (Inl (SelfReferential ''category'' ''parent''), demoState)"
    using w [THEN conjunct1] by simp
  have 2: "isl (fst (build 0 demoEnv demoState ''category'' []))"
    using w [THEN conjunct2, THEN conjunct2, THEN conjunct1] keys demo_factoryFor(4) by simp
  from 1 2 show ?thesis by (intro conjI)
qed

subsection \<open>C4: the sequence counter\<close>




subsection \<open>C5: \<^verbatim>\<open>build\<close> without a factory\<close>



subsection \<open>C6: the precedence of traits and overrides\<close>



subsection \<open>C7: an unknown trait\<close>

text \<open>
  C7: when the type has a registered factory and one of the trait names among the
  arguments is not a trait of the factory, \<^verbatim>\<open>build\<close> fails with the error that names
  the first such trait and the type, and leaves the database as it was (only the
  sequence counter has advanced). \<^verbatim>\<open>create\<close> fails in every case and inserts
  nothing; when its own precondition holds (a model or a collection exists for the
  type) its error is that of \<^verbatim>\<open>build\<close>.
\<close>

theorem unknown_trait_fails_before_insertion:
  assumes "factoryFor env type = Some factory"
      and "List.find (\<lambda>t. \<not> isTrait env (Factory_extend factory []) t) (traitNames args) = Some t"
  shows "build n env s type args = (Inl (TraitNotRegistered t type), advanceSequence env s (camelize env type))
         \<and> db (snd (build n env s type args)) = db s
         \<and> (modelOrFactoryExistsForType env s type \<longrightarrow>
              create (Suc n) env s type args
                = (Inl (TraitNotRegistered t type), advanceSequence env s (camelize env type)))
         \<and> isl (fst (create (Suc n) env s type args))
         \<and> db (snd (create (Suc n) env s type args)) = db s"
proof -
  have b: "build n env s type args = (Inl (TraitNotRegistered t type), advanceSequence env s (camelize env type))"
    unfolding build_def using assms by (rule buildWith_unknown_trait)
  have b': "build n env s type (map JStr (traitNames args) @ [find_js isPlainObject args])
            = (Inl (TraitNotRegistered t type), advanceSequence env s (camelize env type))"
    using b by (simp add: build_normalised)
  have c: "create (Suc n) env s type args =
             (if \<not> modelOrFactoryExistsForType env s type then (Inl (NoModelOrFactory ''create'' type), s)
              else (Inl (TraitNotRegistered t type), advanceSequence env s (camelize env type)))"
    using b' by (simp add: createWith_def build_def Let_def del: modelOrFactoryExistsForType.simps)
  show ?thesis
    using b c by (simp del: modelOrFactoryExistsForType.simps)
qed

theorem unknown_trait_fails_before_insertion_witness:
  "build 0 demoEnv demoState ''post'' [JStr ''published'', JStr ''featured'', JObj [(''title'', JStr ''x'')]]
     = (Inl (TraitNotRegistered ''featured'' ''post''), advanceSequence demoEnv demoState ''post'')
   \<and> create (Suc 0) demoEnv demoState ''post'' [JStr ''published'', JStr ''featured'', JObj [(''title'', JStr ''x'')]]
     = (Inl (TraitNotRegistered ''featured'' ''post''), advanceSequence demoEnv demoState ''post'')
   \<and> db (snd (create (Suc 0) demoEnv demoState ''post''
                 [JStr ''published'', JStr ''featured'', JObj [(''title'', JStr ''x'')]])) = db demoState"
proof -
  let ?args = "[JStr ''published'', JStr ''featured'', JObj [(''title'', JStr ''x'')]]"
  have unknown: "List.find (\<lambda>t. \<not> isTrait demoEnv (Factory_extend postFactory []) t) (traitNames ?args)
                 = Some ''featured''"
    by (simp add: traitNames_def demo_defs Factory_extend_def assign_def lookup_def inheritedMember_def
          objectPrototypeNames_def)
  note w = unknown_trait_fails_before_insertion [OF demo_factoryFor(2) unknown, of 0 demoState]
  have 1: "build 0 demoEnv demoState ''post'' ?args
     = (Inl (TraitNotRegistered ''featured'' ''post''), advanceSequence demoEnv demoState ''post'')"
    using w [THEN conjunct1] by (simp add: demoEnv_sel)
  have 2: "create (Suc 0) demoEnv demoState ''post'' ?args
     = (Inl (TraitNotRegistered ''featured'' ''post''), advanceSequence demoEnv demoState ''post'')"
    using w [THEN conjunct2, THEN conjunct2, THEN conjunct1] demo_exists
    by (simp add: demoEnv_sel del: create.simps modelOrFactoryExistsForType.simps)
  have 3: "db (snd (create (Suc 0) demoEnv demoState ''post'' ?args)) = db demoState"
    using w [THEN conjunct2, THEN conjunct2, THEN conjunct2, THEN conjunct2] .
  from 1 2 3 show ?thesis by (intro conjI)
qed

subsection \<open>C8: a placeholder on an attribute that is no belongs-to relationship\<close>

text \<open>
  C8: a placeholder on an attribute for which the model declares no relationship, or a
  relationship of another kind than belongs-to (a has-many, say), fails with the error
  of the first assertion, which carries the attribute and the model; no record is
  created for it. When the loop of \<^verbatim>\<open>_mapAssociationsFromAttributes\<close> reaches such a
  key it throws that error in the state it is in, whatever \<^verbatim>\<open>this.create\<close> would do;
  a loop over keys that include such a key never completes; and \<^verbatim>\<open>build\<close> for a
  model never returns attributes when such a placeholder is among the factory's
  attributes, or among the merged trait extensions and overrides.
\<close>

theorem placeholder_without_belongsTo_fails:
  assumes "schema env = Some sch" and "modelClassFor sch model = Inr associationFor"
      and "associationFor attr = None \<or> (\<exists>a. associationFor attr = Some a \<and> kind a \<noteq> BelongsTo)"
  shows "forEachAssociation this_create env s model (attr # rest) attributes overrides
           = (Inl (NotBelongsTo attr model), s)
         \<and> (attr \<in> set keys \<longrightarrow>
              isl (fst (forEachAssociation this_create env s model keys attributes overrides)))
         \<and> (factoryFor env model = Some factory \<and> attr \<in> set (associationKeys env (Factory_extend factory [])) \<longrightarrow>
              isl (fst (build n env s model args)))
         \<and> (factoryFor env model = Some factory
              \<and> mergeExtensions (Factory_extend factory []) (traitNames args) (find_js isPlainObject args) = Inr merged
              \<and> attr \<in> set (associationKeys env merged) \<longrightarrow>
              isl (fst (build n env s model args)))"
proof -
  note step = mapAssociation_notBelongsTo [OF assms]
  have fails: "isl (fst (forEachAssociation c env s' model keys' attributes' overrides'))"
    if "attr \<in> set keys'" for c s' keys' attributes' overrides'
    by (rule forEachAssociation_fails [OF _ that]) (simp add: step)
  have "isl (fst (build n env s model args))"
    if "factoryFor env model = Some factory" "attr \<in> set (associationKeys env (Factory_extend factory []))"
    unfolding build_def
    by (rule buildWith_fails [OF that(1)]) (simp add: mapAssociationsFromAttributes_def fails that(2))
  moreover have "isl (fst (build n env s model args))"
    if "factoryFor env model = Some factory"
       "mergeExtensions (Factory_extend factory []) (traitNames args) (find_js isPlainObject args) = Inr merged"
       "attr \<in> set (associationKeys env merged)"
    unfolding build_def
    by (rule buildWith_fails_merged [OF that(1) _ that(2,3)]) (simp add: mapAssociationsFromAttributes_def fails)
  ultimately show ?thesis
    by (simp add: step fails)
qed

theorem placeholder_without_belongsTo_fails_witness:
  "forEachAssociation (create 0 demoEnv) demoEnv demoState ''tag'' [''posts'']
       [(''posts'', placeholder [])] (JObj [])
     = (Inl (NotBelongsTo ''posts'' ''tag''), demoState)
   \<and> forEachAssociation (create 0 demoEnv) demoEnv demoState ''tag'' [''name'']
       [(''name'', placeholder [])] (JObj [])
     = (Inl (NotBelongsTo ''name'' ''tag''), demoState)
   \<and> isl (fst (build 0 demoEnv demoState ''tag'' []))"
proof -
  have hasMany: "map_of [(''posts'', \<lparr>kind = HasMany, modelName = ''post''\<rparr>)] ''posts'' = None
      \<or> (\<exists>a. map_of [(''posts'', \<lparr>kind = HasMany, modelName = ''post''\<rparr>)] ''posts'' = Some a \<and> kind a \<noteq> BelongsTo)"
    by simp
  have undeclared: "map_of [(''posts'', \<lparr>kind = HasMany, modelName = ''post''\<rparr>)] ''name'' = None
      \<or> (\<exists>a. map_of [(''posts'', \<lparr>kind = HasMany, modelName = ''post''\<rparr>)] ''name'' = Some a \<and> kind a \<noteq> BelongsTo)"
    by simp
  note w1 = placeholder_without_belongsTo_fails [OF demoEnv_sel(2) demo_modelClassFor(3) hasMany,
      where s = demoState and this_create = "create 0 demoEnv" and rest = "[]"
        and attributes = "[(''posts'', placeholder [])]" and overrides = "JObj []"
        and factory = "[(''posts'', placeholder [])]" and n = 0 and args = "[]"]
  note w2 = placeholder_without_belongsTo_fails [OF demoEnv_sel(2) demo_modelClassFor(3) undeclared,
      where s = demoState and this_create = "create 0 demoEnv" and rest = "[]"
        and attributes = "[(''name'', placeholder [])]" and overrides = "JObj []"]
  have keys: "''posts'' \<in> set (associationKeys demoEnv (Factory_extend [(''posts'', placeholder [])] []))"
    by (simp add: demo_defs associationKeys_def lookup_def Factory_extend_def assign_def)
  have 1: "forEachAssociation (create 0 demoEnv) demoEnv demoState ''tag'' [''posts'']
       [(''posts'', placeholder [])] (JObj [])
     = (Inl (NotBelongsTo ''posts'' ''tag''), demoState)"
    using w1 [THEN conjunct1] by simp
  have 2: "forEachAssociation (create 0 demoEnv) demoEnv demoState ''tag'' [''name'']
       [(''name'', placeholder [])] (JObj [])
     = (Inl (NotBelongsTo ''name'' ''tag''), demoState)"
    using w2 [THEN conjunct1] by simp
  have 3: "isl (fst (build 0 demoEnv demoState ''tag'' []))"
    using w1 [THEN conjunct2, THEN conjunct2, THEN conjunct1] keys demo_factoryFor(5) by simp
  from 1 2 3 show ?thesis by (intro conjI)
qed

subsection \<open>C9: a falsy override\<close>

text \<open>
  C9, as the specification states it: under a falsy override the related record is
  created exactly as if no override had been supplied for the key. The code reads
  \<^verbatim>\<open>overrides[attr]\<close>, which for a key that the overrides do not own is the member
  of \<^verbatim>\<open>Object.prototype\<close> of that name, when there is one. For a gadget, whose
  relationship to its author has the name \<open>valueOf\<close>, the override
  \<^verbatim>\<open>{valueOf: null}\<close> makes \<^verbatim>\<open>_mapAssociationsFromAttributes\<close> create the author
  and set \<^verbatim>\<open>valueOfId\<close>; with no overrides it creates nothing and sets nothing, the
  inherited function \<^verbatim>\<open>valueOf\<close> being truthy.
\<close>

theorem inherited_member_counterexample:
  "mapAssociationsFromAttributes (create (Suc 0) demoEnv) demoEnv demoState ''gadget''
       [(''valueOf'', placeholder authorBundle)] (JObj [(''valueOf'', JNull)])
     = (Inr [(''valueOfId'', JNum 1)], demoStateWithAuthor)
   \<and> mapAssociationsFromAttributes (create (Suc 0) demoEnv) demoEnv demoState ''gadget''
       [(''valueOf'', placeholder authorBundle)] JUndefined
     = (Inr [], demoState)
   \<and> demoStateWithAuthor \<noteq> demoState"
  by (simp add: demo_defs model_defs)

text \<open>
  C9, amended: the creation of the related record is suppressed by the truthiness of
  \<^verbatim>\<open>overrides[attr]\<close>, not by the presence of the key. When the overrides hold
  \<^verbatim>\<open>null\<close>, \<^verbatim>\<open>false\<close>, \<open>0\<close>, the empty string or \<^verbatim>\<open>undefined\<close> under the
  key of a declared belongs-to relationship to another model (or, under a key that
  names no member of \<^verbatim>\<open>Object.prototype\<close>, nothing), the callback calls
  \<^verbatim>\<open>create\<close> for the target model with the arguments that the placeholder bundles
  and, when a record comes back, sets the foreign key to its \<^verbatim>\<open>id\<close> and removes the
  placeholder's key. When this is so under every placeholder key and none of these keys
  names a member of \<^verbatim>\<open>Object.prototype\<close>, \<^verbatim>\<open>_mapAssociationsFromAttributes\<close>
  does exactly what it does with no overrides at all. Under a key that names a member
  of \<^verbatim>\<open>Object.prototype\<close>, overrides that own nothing under it suppress the
  creation.
\<close>

theorem falsy_override_does_not_suppress:
  "((\<forall>attr \<in> set (associationKeys env attributes).
       attr \<notin> set objectPrototypeNames
       \<and> lookup overrides attr \<in> {JUndefined, JNull, JBool False, JNum 0, JStr []}) \<longrightarrow>
      mapAssociationsFromAttributes (create n env) env s model attributes (JObj overrides)
        = mapAssociationsFromAttributes (create n env) env s model attributes JUndefined)
   \<and> (lookup overrides attr \<in> {JUndefined, JNull, JBool False, JNum 0, JStr []}
        \<and> schema env = Some sch \<and> modelClassFor sch model = Inr associationFor
        \<and> associationFor attr = Some a \<and> kind a = BelongsTo \<and> modelName a \<noteq> model
        \<and> getProp (lookup attributes' attr) ''traitsAndOverrides'' = Inr (JArr args)
        \<and> create n env s (modelName a) args = (Inr related, s')
        \<and> getProp related ''id'' = Inr ident \<longrightarrow>
      mapAssociation (create n env) env s model attr attributes' (JObj overrides)
        = (Inr (AList.delete attr (AList.update (camelize env attr @ ''Id'') ident attributes')), s'))
   \<and> (attr \<in> set objectPrototypeNames \<and> map_of overrides attr = None
        \<and> schema env = Some sch \<and> modelClassFor sch model = Inr associationFor
        \<and> associationFor attr = Some a \<and> kind a = BelongsTo \<and> modelName a \<noteq> model \<longrightarrow>
      mapAssociation (create n env) env s model attr attributes' (JObj overrides)
        = (Inr (AList.delete attr attributes'), s))"
proof -
  have 1: "mapAssociationsFromAttributes (create n env) env s model attributes (JObj overrides)
           = mapAssociationsFromAttributes (create n env) env s model attributes JUndefined"
    if falsy: "\<forall>attr \<in> set (associationKeys env attributes).
                 attr \<notin> set objectPrototypeNames
                 \<and> lookup overrides attr \<in> {JUndefined, JNull, JBool False, JNum 0, JStr []}"
  proof -
    have "map_sum id truthy (getProp (JObj overrides) attr) = map_sum id truthy (getProp (JObj []) attr)"
      if "attr \<in> set (associationKeys env attributes)" for attr
    proof -
      from falsy that have "\<not> truthy (lookup overrides attr)" "inheritedMember attr = JUndefined"
        by (auto simp: inheritedMember_other)
      then show ?thesis by (simp add: lookup_def)
    qed
    then show ?thesis
      by (simp add: mapAssociationsFromAttributes_def forEachAssociation_overrides_cong)
  qed
  have 2: "mapAssociation (create n env) env s model attr attributes' (JObj overrides)
              = (Inr (AList.delete attr (AList.update (camelize env attr @ ''Id'') ident attributes')), s')"
    if "lookup overrides attr \<in> {JUndefined, JNull, JBool False, JNum 0, JStr []}"
       "schema env = Some sch" "modelClassFor sch model = Inr associationFor"
       "associationFor attr = Some a" "kind a = BelongsTo" "modelName a \<noteq> model"
       "getProp (lookup attributes' attr) ''traitsAndOverrides'' = Inr (JArr args)"
       "create n env s (modelName a) args = (Inr related, s')"
       "getProp related ''id'' = Inr ident"
  proof -
    from that(1) have "\<not> truthy (lookup overrides attr)" by auto
    with that(7-9) show ?thesis
      by (simp add: mapAssociation_def createRelated_def belongsToAssociation_other [OF that(2-6)])
  qed
  have 3: "mapAssociation (create n env) env s model attr attributes' (JObj overrides)
              = (Inr (AList.delete attr attributes'), s)"
    if "attr \<in> set objectPrototypeNames" "map_of overrides attr = None"
       "schema env = Some sch" "modelClassFor sch model = Inr associationFor"
       "associationFor attr = Some a" "kind a = BelongsTo" "modelName a \<noteq> model"
  proof -
    from that(1,2) have "truthy (lookup overrides attr)"
      by (simp add: lookup_def inheritedMember_truthy)
    then show ?thesis
      by (simp add: mapAssociation_def belongsToAssociation_other [OF that(3-7)])
  qed
  from 1 2 3 show ?thesis by blast
qed

text \<open>The witness: a post with the override \<^verbatim>\<open>{author: false}\<close>, and a gadget with the
  override \<^verbatim>\<open>{valueOf: 0}\<close> and with the override \<^verbatim>\<open>{name: 'x'}\<close>.\<close>

theorem falsy_override_does_not_suppress_witness:
  "mapAssociationsFromAttributes (create (Suc 0) demoEnv) demoEnv demoState ''post'' postFactory
       (JObj [(''author'', JBool False), (''title'', JStr ''Ipsum'')])
     = mapAssociationsFromAttributes (create (Suc 0) demoEnv) demoEnv demoState ''post'' postFactory JUndefined
   \<and> mapAssociation (create (Suc 0) demoEnv) demoEnv demoState ''post'' ''author'' postFactory
       (JObj [(''author'', JBool False), (''title'', JStr ''Ipsum'')])
     = (Inr [(''title'', JStr ''Lorem''), (''published'', trait [(''status'', JStr ''published'')]),
             (''authorId'', JNum 1)], demoStateWithAuthor)
   \<and> mapAssociation (create (Suc 0) demoEnv) demoEnv demoState ''gadget'' ''valueOf''
       [(''valueOf'', placeholder authorBundle)] (JObj [(''valueOf'', JNum 0)])
     = (Inr [(''valueOfId'', JNum 1)], demoStateWithAuthor)
   \<and> mapAssociation (create (Suc 0) demoEnv) demoEnv demoState ''gadget'' ''valueOf''
       [(''valueOf'', placeholder authorBundle)] (JObj [(''name'', JStr ''x'')])
     = (Inr [], demoState)"
proof -
  let ?ov = "[(''author'', JBool False), (''title'', JStr ''Ipsum'')]"
  let ?gadget = "[(''valueOf'', placeholder authorBundle)]"
  let ?af = "map_of [(''author'', \<lparr>kind = BelongsTo, modelName = ''author''\<rparr>),
                      (''comments'', \<lparr>kind = HasMany, modelName = ''comment''\<rparr>)]"
  let ?gf = "map_of [(''valueOf'', \<lparr>kind = BelongsTo, modelName = ''author''\<rparr>)]"
  let ?a = "\<lparr>kind = BelongsTo, modelName = ''author''\<rparr>"
  have falsy: "\<forall>attr \<in> set (associationKeys demoEnv postFactory).
      attr \<notin> set objectPrototypeNames \<and> lookup ?ov attr \<in> {JUndefined, JNull, JBool False, JNum 0, JStr []}"
    by (simp add: demo_associationKeys_post lookup_def objectPrototypeNames_def)
  note w = falsy_override_does_not_suppress [where env = demoEnv and n = "Suc 0" and s = demoState]
  have 1: "mapAssociationsFromAttributes (create (Suc 0) demoEnv) demoEnv demoState ''post'' postFactory (JObj ?ov)
     = mapAssociationsFromAttributes (create (Suc 0) demoEnv) demoEnv demoState ''post'' postFactory JUndefined"
    using w [where attributes = postFactory and overrides = ?ov and model = "''post''", THEN conjunct1, THEN mp, OF falsy] .
  have related: "create (Suc 0) demoEnv demoState (modelName ?a) authorBundle = (Inr link, demoStateWithAuthor)"
                "getProp link ''id'' = Inr (JNum 1)"
    by (simp_all add: demo_create_author link_def lookup_def del: create.simps)
  have h: "lookup ?ov ''author'' \<in> {JUndefined, JNull, JBool False, JNum 0, JStr []}
           \<and> schema demoEnv = Some demoSchema \<and> modelClassFor demoSchema ''post'' = Inr ?af
           \<and> ?af ''author'' = Some ?a \<and> kind ?a = BelongsTo \<and> modelName ?a \<noteq> ''post''
           \<and> getProp (lookup postFactory ''author'') ''traitsAndOverrides'' = Inr (JArr authorBundle)
           \<and> create (Suc 0) demoEnv demoState (modelName ?a) authorBundle = (Inr link, demoStateWithAuthor)
           \<and> getProp link ''id'' = Inr (JNum 1)"
  proof -
    have "getProp (lookup postFactory ''author'') ''traitsAndOverrides'' = Inr (JArr authorBundle)"
         "lookup ?ov ''author'' = JBool False"
      by (simp_all add: postFactory_def lookup_def placeholder_def)
    with related show ?thesis
      by (simp add: demoEnv_sel demo_modelClassFor del: create.simps getProp.simps)
  qed
  have 2: "mapAssociation (create (Suc 0) demoEnv) demoEnv demoState ''post'' ''author'' postFactory (JObj ?ov)
     = (Inr [(''title'', JStr ''Lorem''), (''published'', trait [(''status'', JStr ''published'')]),
             (''authorId'', JNum 1)], demoStateWithAuthor)"
    using w [where overrides = ?ov and model = "''post''", THEN conjunct2, THEN conjunct1, THEN mp, OF h]
    by (simp add: demoEnv_sel postFactory_def)
  have g: "lookup [(''valueOf'', JNum 0)] ''valueOf'' \<in> {JUndefined, JNull, JBool False, JNum 0, JStr []}
           \<and> schema demoEnv = Some demoSchema \<and> modelClassFor demoSchema ''gadget'' = Inr ?gf
           \<and> ?gf ''valueOf'' = Some ?a \<and> kind ?a = BelongsTo \<and> modelName ?a \<noteq> ''gadget''
           \<and> getProp (lookup ?gadget ''valueOf'') ''traitsAndOverrides'' = Inr (JArr authorBundle)
           \<and> create (Suc 0) demoEnv demoState (modelName ?a) authorBundle = (Inr link, demoStateWithAuthor)
           \<and> getProp link ''id'' = Inr (JNum 1)"
  proof -
    have "getProp (lookup ?gadget ''valueOf'') ''traitsAndOverrides'' = Inr (JArr authorBundle)"
         "lookup [(''valueOf'', JNum 0)] ''valueOf'' = JNum 0"
      by (simp_all add: lookup_def placeholder_def)
    with related show ?thesis
      by (simp add: demoEnv_sel demo_modelClassFor del: create.simps getProp.simps)
  qed
  have 3: "mapAssociation (create (Suc 0) demoEnv) demoEnv demoState ''gadget'' ''valueOf'' ?gadget
             (JObj [(''valueOf'', JNum 0)])
     = (Inr [(''valueOfId'', JNum 1)], demoStateWithAuthor)"
    using w [where overrides = "[(''valueOf'', JNum 0)]" and model = "''gadget''", THEN conjunct2, THEN conjunct1,
             THEN mp, OF g]
    by (simp add: demoEnv_sel)
  have i: "''valueOf'' \<in> set objectPrototypeNames \<and> map_of [(''name'', JStr ''x'')] ''valueOf'' = None
           \<and> schema demoEnv = Some demoSchema \<and> modelClassFor demoSchema ''gadget'' = Inr ?gf
           \<and> ?gf ''valueOf'' = Some ?a \<and> kind ?a = BelongsTo \<and> modelName ?a \<noteq> ''gadget''"
    by (simp add: demoEnv_sel demo_modelClassFor objectPrototypeNames_def)
  have 4: "mapAssociation (create (Suc 0) demoEnv) demoEnv demoState ''gadget'' ''valueOf'' ?gadget
             (JObj [(''name'', JStr ''x'')])
     = (Inr [], demoState)"
    using w [where overrides = "[(''name'', JStr ''x'')]" and model = "''gadget''" and attributes' = ?gadget,
             THEN conjunct2, THEN conjunct2, THEN mp, OF i]
    by simp
  from 1 2 3 4 show ?thesis by (intro conjI)
qed

subsection \<open>C10: \<^verbatim>\<open>build\<close> without a plain object among its arguments\<close>



end
